theory Spec2Isabelle
  imports Main "HOL-Library.Sublist"
begin

section \<open>Python string operations used by \<^verbatim>\<open>hf_dl.py\<close>\<close>

text \<open>
  Python strings are modelled as \<^typ>\<open>string\<close>. The program only ever compares
  characters with the ASCII characters \<^verbatim>\<open>/\<close> and \<^verbatim>\<open>_\<close>, and an ASCII byte never occurs
  inside the UTF-8 encoding of another code point, so stripping, splitting, joining and
  replacing act on the encoded string exactly as they do on the code points.
\<close>

text \<open>\<^verbatim>\<open>s.strip(chars)\<close>: drop every leading and every trailing character that occurs in
  \<^verbatim>\<open>chars\<close>.\<close>

definition py_strip :: "string \<Rightarrow> string \<Rightarrow> string" where
  "py_strip chars s =
     rev (dropWhile (\<lambda>c. c \<in> set chars) (rev (dropWhile (\<lambda>c. c \<in> set chars) s)))"

text \<open>\<^verbatim>\<open>s.split(sep)\<close> for a separator of one character, the only way the program calls
  it: the string is cut at every occurrence of the separator, empty pieces are kept, and
  the result always has at least one element (\<^verbatim>\<open>"".split("/") == [""]\<close>). A character
  other than the separator goes in front of the first piece of the rest, which always
  exists.\<close>

primrec py_split :: "char \<Rightarrow> string \<Rightarrow> string list" where
  "py_split sep [] = [[]]"
| "py_split sep (c # cs) =
     (if c = sep then [] # py_split sep cs
      else (case py_split sep cs of
              w # ws \<Rightarrow> (c # w) # ws
            | [] \<Rightarrow> [[c]]))"

text \<open>\<^verbatim>\<open>sep.join(xs)\<close>.\<close>

fun py_join :: "string \<Rightarrow> string list \<Rightarrow> string" where
  "py_join sep [] = []"
| "py_join sep [x] = x"
| "py_join sep (x # y # ys) = x @ sep @ py_join sep (y # ys)"

text \<open>\<^verbatim>\<open>s.replace(old, new)\<close> where both arguments are one character long, as in the
  program's \<^verbatim>\<open>replace("/", "_")\<close>.\<close>

definition py_replace :: "char \<Rightarrow> char \<Rightarrow> string \<Rightarrow> string" where
  "py_replace old new s = map (\<lambda>c. if c = old then new else c) s"

text \<open>\<^verbatim>\<open>os.path.join(a, b)\<close> with two arguments, as \<^verbatim>\<open>posixpath\<close> defines it: an absolute
  second argument replaces the first; otherwise the two are concatenated, with a slash
  in between unless the first is empty or already ends in one.\<close>

definition os_path_join :: "string \<Rightarrow> string \<Rightarrow> string" where
  "os_path_join a b =
     (if b \<noteq> [] \<and> hd b = CHR ''/'' then b
      else if a = [] \<or> last a = CHR ''/'' then a @ b
      else a @ ''/'' @ b)"

section \<open>Exceptions, the outside world and the external functions\<close>

text \<open>An exception is the most specific of the three classes the program's handlers
  tell apart (\<^verbatim>\<open>ValueError\<close> is a subclass of \<^verbatim>\<open>Exception\<close>, which is a subclass of
  \<^verbatim>\<open>BaseException\<close>), together with its message \<^verbatim>\<open>str(e)\<close>.\<close>

datatype exc_class = ValueError | Exception | BaseException

datatype exn = Exc exc_class string

fun exc_class_of :: "exn \<Rightarrow> exc_class" where
  "exc_class_of (Exc k m) = k"

fun str :: "exn \<Rightarrow> string" where
  "str (Exc k m) = m"

text \<open>Whether a handler \<^verbatim>\<open>except cls\<close> catches the exception.\<close>

fun isinstance :: "exn \<Rightarrow> exc_class \<Rightarrow> bool" where
  "isinstance e BaseException = True"
| "isinstance e Exception = (exc_class_of e \<noteq> BaseException)"
| "isinstance e ValueError = (exc_class_of e = ValueError)"

text \<open>The six components of the result of \<^verbatim>\<open>urllib.parse.urlparse\<close>.\<close>

record parse_result =
  scheme :: string
  netloc :: string
  path :: string
  params :: string
  query :: string
  fragment :: string

text \<open>The keyword arguments of one call of \<^verbatim>\<open>snapshot_download\<close>.\<close>

record snapshot_call =
  call_repo_id :: string
  call_allow_patterns :: "string list"
  call_local_dir :: string
  call_token :: "string option"
  call_max_workers :: int

text \<open>What the process has done so far: the lines it printed (a call of
  \<^verbatim>\<open>parser.print_help()\<close> is one item) and the calls of the bulk-download operation it
  made, which are its only network activity.\<close>

datatype out_item = Print string | PrintHelp

record world =
  stdout :: "out_item list"
  transfers :: "snapshot_call list"

text \<open>The library functions the program calls and whose results depend on things
  outside the program (the URL grammar of \<^verbatim>\<open>urllib\<close>, the environment and the working
  directory, the network) are parameters of the model. \<^verbatim>\<open>urlparse\<close> may raise and so may
  \<^verbatim>\<open>snapshot_download\<close>, which otherwise returns the path of the downloaded folder.\<close>

record externals =
  urlparse :: "string \<Rightarrow> exn + parse_result"
  expanduser :: "string \<Rightarrow> string"
  abspath :: "string \<Rightarrow> string"
  snapshot_download :: "snapshot_call \<Rightarrow> exn + string"

definition py_print :: "string \<Rightarrow> world \<Rightarrow> world" where
  "py_print s w = w\<lparr>stdout := stdout w @ [Print s]\<rparr>"

definition print_help :: "world \<Rightarrow> world" where
  "print_help w = w\<lparr>stdout := stdout w @ [PrintHelp]\<rparr>"

section \<open>The program\<close>

subsection \<open>\<^verbatim>\<open>parse_hf_url\<close>\<close>

definition parse_hf_url :: "externals \<Rightarrow> string \<Rightarrow> exn + (string \<times> string)" where
  "parse_hf_url ext url =
     (case urlparse ext url of
        Inl e \<Rightarrow> Inl e
      | Inr parsed \<Rightarrow>
          if netloc parsed = ''huggingface.co'' then
            (let path_parts = py_split CHR ''/'' (py_strip ''/'' (path parsed)) in
             if length path_parts < 2 then
               Inl (Exc ValueError ''Invalid Hugging Face URL format'')
             else
               (let repo_id = path_parts ! 0 @ ''/'' @ path_parts ! 1;
                    directory =
                      (if length path_parts > 4 \<and> path_parts ! 2 = ''tree'' then
                         py_join ''/'' (drop 4 path_parts)
                       else if length path_parts > 2 then
                         py_join ''/'' (drop 2 path_parts)
                       else [])
                in Inr (repo_id, directory)))
          else Inl (Exc ValueError ''URL must be from huggingface.co''))"

subsection \<open>\<^verbatim>\<open>download_hf_directory\<close>\<close>

text \<open>The whole body is inside \<^verbatim>\<open>try\<close>; the handler \<^verbatim>\<open>except Exception\<close> prints the
  message and re-raises. Only the call of \<^verbatim>\<open>snapshot_download\<close> is taken to raise; the
  call is recorded in the world before its outcome is known. An exception outside
  \<^verbatim>\<open>Exception\<close> (a keyboard interrupt) passes the handler untouched.\<close>

definition download_hf_directory ::
  "externals \<Rightarrow> string \<Rightarrow> string \<Rightarrow> string option \<Rightarrow> string option \<Rightarrow> string option \<Rightarrow> int
     \<Rightarrow> world \<Rightarrow> (exn + string) \<times> world" where
  "download_hf_directory ext repo_id directory local_dir output_dir token max_workers w =
     (let local_dir1 =
            (case local_dir of
               None \<Rightarrow>
                 (let repo_name = py_replace CHR ''/'' CHR ''_'' repo_id;
                      dir_name = py_replace CHR ''/'' CHR ''_'' directory
                  in repo_name @ ''_'' @ dir_name)
             | Some l \<Rightarrow> l);
          local_dir2 =
            (case output_dir of
               None \<Rightarrow> local_dir1
             | Some od \<Rightarrow> os_path_join (abspath ext (expanduser ext od)) local_dir1);
          directory1 = py_strip ''/'' directory;
          w1 = py_print (''Downloading from '' @ repo_id @ ''/'' @ directory1 @ ''/ to '' @ local_dir2) w;
          allow_patterns = [directory1 @ ''/**/*'', directory1 @ ''/*''];
          call = \<lparr>call_repo_id = repo_id, call_allow_patterns = allow_patterns,
                   call_local_dir = local_dir2, call_token = token,
                   call_max_workers = max_workers\<rparr>;
          w2 = w1\<lparr>transfers := transfers w1 @ [call]\<rparr>
      in case snapshot_download ext call of
           Inr downloaded_path \<Rightarrow>
             (Inr downloaded_path,
              py_print (''Download completed! Files saved to: '' @ downloaded_path) w2)
         | Inl e \<Rightarrow>
             if isinstance e Exception then
               (Inl e, py_print (''Error downloading files: '' @ str e) w2)
             else (Inl e, w2))"

subsection \<open>\<^verbatim>\<open>main\<close>\<close>

text \<open>The namespace \<^verbatim>\<open>parser.parse_args()\<close> returns.\<close>

record args =
  arg_url :: string
  arg_local_dir :: "string option"
  arg_output_dir :: "string option"
  arg_token :: "string option"
  arg_max_workers :: int

text \<open>The body of the \<^verbatim>\<open>try\<close> statement of \<^verbatim>\<open>main\<close>: \<^verbatim>\<open>Inr ()\<close> when it runs to its end
  or returns, \<^verbatim>\<open>Inl e\<close> when it raises.\<close>

definition main_try :: "externals \<Rightarrow> args \<Rightarrow> world \<Rightarrow> (exn + unit) \<times> world" where
  "main_try ext a w =
     (case parse_hf_url ext (arg_url a) of
        Inl e \<Rightarrow> (Inl e, w)
      | Inr (repo_id, directory) \<Rightarrow>
          if directory = [] then
            (Inr (),
             py_print ''Example: https://huggingface.co/username/repo-name/tree/main/models''
               (py_print ''Error: Please specify a directory in the URL'' w))
          else
            (let w1 = py_print (''Repository: '' @ repo_id) w;
                 w2 = py_print (''Directory: '' @ directory) w1
             in case download_hf_directory ext repo_id directory (arg_local_dir a)
                       (arg_output_dir a) (arg_token a) (arg_max_workers a) w2 of
                  (Inl e, w3) \<Rightarrow> (Inl e, w3)
                | (Inr downloaded_path, w3) \<Rightarrow> (Inr (), w3)))"

text \<open>\<^verbatim>\<open>main\<close> after the arguments are parsed: the \<^verbatim>\<open>try\<close> body under the handler
  \<^verbatim>\<open>except ValueError\<close>. \<^verbatim>\<open>Inr ()\<close> is normal termination; \<^verbatim>\<open>Inl e\<close> is the exception
  that leaves \<^verbatim>\<open>main\<close> and ends the process abnormally.\<close>

definition main :: "externals \<Rightarrow> args \<Rightarrow> world \<Rightarrow> (exn + unit) \<times> world" where
  "main ext a w =
     (case main_try ext a w of
        (Inl e, w') \<Rightarrow>
          if isinstance e ValueError then
            (Inr (), print_help (py_print (''Error: '' @ str e) w'))
          else (Inl e, w')
      | (Inr u, w') \<Rightarrow> (Inr u, w'))"

section \<open>Vocabulary of the specification\<close>

text \<open>The segments the parser works on.\<close>

definition segments :: "parse_result \<Rightarrow> string list" where
  "segments parsed = py_split CHR ''/'' (py_strip ''/'' (path parsed))"

text \<open>The folder name derived when no \<^verbatim>\<open>--local-dir\<close> is given, in the specification's
  words.\<close>

definition derived_name :: "string \<Rightarrow> string \<Rightarrow> string" where
  "derived_name repo_id directory =
     py_replace CHR ''/'' CHR ''_'' repo_id @ ''_'' @ py_replace CHR ''/'' CHR ''_'' directory"

text \<open>The call of \<^verbatim>\<open>snapshot_download\<close> a run has issued: the last one recorded in the
  world it ends in.\<close>

definition issued_call :: "'r \<times> world \<Rightarrow> snapshot_call" where
  "issued_call r = last (transfers (snd r))"





section \<open>A sample environment\<close>

text \<open>Concrete inputs for the instances below. The table lists what \<^verbatim>\<open>urlparse\<close> returns
  on six URLs and the one exception it raises on a seventh. A string outside the table
  is treated as a bare relative path: that is \<^verbatim>\<open>urlparse\<close>'s result on a string without
  colon, slash pair, question mark, hash sign or semicolon, and no instance below
  leaves the table.\<close>

definition hf_url :: "string \<Rightarrow> string \<Rightarrow> string \<Rightarrow> string \<Rightarrow> exn + parse_result" where
  "hf_url sch host p q =
     Inr \<lparr>scheme = sch, netloc = host, path = p, params = [], query = q, fragment = []\<rparr>"

definition urlparse_table :: "(string \<times> (exn + parse_result)) list" where
  "urlparse_table =
     [(''https://huggingface.co/acme/widgets/tree/main/vae/blocks'',
         hf_url ''https'' ''huggingface.co'' ''/acme/widgets/tree/main/vae/blocks'' []),
      (''http://huggingface.co/acme/widgets/tree/main/vae/blocks?download=true'',
         hf_url ''http'' ''huggingface.co'' ''/acme/widgets/tree/main/vae/blocks''
           ''download=true''),
      (''https://huggingface.co/acme/widgets/tree/main'',
         hf_url ''https'' ''huggingface.co'' ''/acme/widgets/tree/main'' []),
      (''https://huggingface.co/acme/widgets'',
         hf_url ''https'' ''huggingface.co'' ''/acme/widgets'' []),
      (''https://huggingface.co/acme'',
         hf_url ''https'' ''huggingface.co'' ''/acme'' []),
      (''https://example.com/acme/widgets/tree/main/vae'',
         hf_url ''https'' ''example.com'' ''/acme/widgets/tree/main/vae'' []),
      (''https://[huggingface.co/acme/widgets'',
         Inl (Exc ValueError ''Invalid IPv6 URL''))]"

definition sample_urlparse :: "string \<Rightarrow> exn + parse_result" where
  "sample_urlparse u =
     (case map_of urlparse_table u of
        Some r \<Rightarrow> r
      | None \<Rightarrow> hf_url [] [] u [])"

text \<open>\<^verbatim>\<open>posixpath.expanduser\<close> where \<^verbatim>\<open>HOME\<close> is \<^verbatim>\<open>/home/user\<close> and no other user is
  known, and \<^verbatim>\<open>posixpath.abspath\<close> in the working directory \<^verbatim>\<open>/work\<close> on paths that are
  already normalised.\<close>

definition sample_expanduser :: "string \<Rightarrow> string" where
  "sample_expanduser p =
     (if p = ''~'' \<or> take 2 p = ''~/'' then ''/home/user'' @ drop 1 p else p)"

definition sample_abspath :: "string \<Rightarrow> string" where
  "sample_abspath p = (if p \<noteq> [] \<and> hd p = CHR ''/'' then p else ''/work/'' @ p)"

text \<open>A transfer that succeeds and reports the folder it was given, and one that raises
  a given exception.\<close>

definition sample_externals :: externals where
  "sample_externals =
     \<lparr>urlparse = sample_urlparse, expanduser = sample_expanduser,
      abspath = sample_abspath, snapshot_download = (\<lambda>c. Inr (call_local_dir c))\<rparr>"


definition sample_args :: "string \<Rightarrow> args" where
  "sample_args u =
     \<lparr>arg_url = u, arg_local_dir = None, arg_output_dir = None, arg_token = None,
      arg_max_workers = 2\<rparr>"

definition world0 :: world where
  "world0 = \<lparr>stdout = [], transfers = []\<rparr>"

section \<open>Facts about the string operations\<close>

lemma py_split_not_Nil: "py_split c s \<noteq> []"
  by (induction s) (auto split: list.splits)

lemma last_py_split_snoc: "x \<noteq> c \<Longrightarrow> last (py_split c (s @ [x])) \<noteq> []"
proof (induction s)
  case Nil
  then show ?case by simp
next
  case (Cons y ys)
  obtain w ws where sp: "py_split c (ys @ [x]) = w # ws"
    using py_split_not_Nil [of c "ys @ [x]"] by (cases "py_split c (ys @ [x])") auto
  from Cons sp show ?case by (cases ws) auto
qed

lemma last_py_split_not_Nil:
  assumes "s \<noteq> []" and "last s \<noteq> c"
  shows "last (py_split c s) \<noteq> []"
proof -
  from assms(1) have "s = butlast s @ [last s]" by simp
  then show ?thesis
    using last_py_split_snoc [OF assms(2), of "butlast s"] by simp
qed



lemma py_strip_last: "py_strip cs s \<noteq> [] \<Longrightarrow> last (py_strip cs s) \<notin> set cs"
proof -
  assume ne: "py_strip cs s \<noteq> []"
  let ?t = "dropWhile (\<lambda>c. c \<in> set cs) (rev (dropWhile (\<lambda>c. c \<in> set cs) s))"
  have t: "?t \<noteq> []" using ne by (simp add: py_strip_def)
  then have "hd ?t \<notin> set cs" using hd_dropWhile [of "\<lambda>c. c \<in> set cs"] by blast
  moreover have "last (py_strip cs s) = hd ?t"
    using t by (simp add: py_strip_def last_rev)
  ultimately show ?thesis by simp
qed

lemma py_join_not_Nil: "xs \<noteq> [] \<Longrightarrow> last xs \<noteq> [] \<Longrightarrow> py_join sep xs \<noteq> []"
  by (induction sep xs rule: py_join.induct) auto

lemmas sample_defs =
  sample_externals_def sample_urlparse_def urlparse_table_def hf_url_def

section \<open>The URL parser\<close>

text \<open>Claim C1. When the host is \<^verbatim>\<open>huggingface.co\<close> and the stripped path splits into
  more than four segments of which the third is \<^verbatim>\<open>tree\<close>, \<^verbatim>\<open>parse_hf_url\<close> returns the
  first two segments joined by a slash as the repository and the segments from the
  fifth on joined by slashes as the directory; the branch name, the fourth segment, is
  dropped.\<close>

theorem parse_hf_url_tree:
  assumes "urlparse ext url = Inr parsed"
    and "netloc parsed = ''huggingface.co''"
    and "length (segments parsed) > 4"
    and "segments parsed ! 2 = ''tree''"
  shows "parse_hf_url ext url =
           Inr (segments parsed ! 0 @ ''/'' @ segments parsed ! 1,
                py_join ''/'' (drop 4 (segments parsed)))"
  using assms by (simp add: parse_hf_url_def segments_def Let_def)

theorem parse_hf_url_tree_witness:
  "urlparse sample_externals ''https://huggingface.co/acme/widgets/tree/main/vae/blocks'' =
     hf_url ''https'' ''huggingface.co'' ''/acme/widgets/tree/main/vae/blocks'' [] \<and>
   segments \<lparr>scheme = ''https'', netloc = ''huggingface.co'',
             path = ''/acme/widgets/tree/main/vae/blocks'', params = [], query = [],
             fragment = []\<rparr> =
     [''acme'', ''widgets'', ''tree'', ''main'', ''vae'', ''blocks''] \<and>
   parse_hf_url sample_externals ''https://huggingface.co/acme/widgets/tree/main/vae/blocks'' =
     Inr (''acme/widgets'', ''vae/blocks'')"
proof -
  let ?u = "''https://huggingface.co/acme/widgets/tree/main/vae/blocks''"
  let ?p = "\<lparr>scheme = ''https'', netloc = ''huggingface.co'',
             path = ''/acme/widgets/tree/main/vae/blocks'', params = [], query = [],
             fragment = []\<rparr>"
  have h1: "urlparse sample_externals ?u = Inr ?p"
    by (simp add: sample_defs)
  have h2: "netloc ?p = ''huggingface.co''" by simp
  have seg: "segments ?p = [''acme'', ''widgets'', ''tree'', ''main'', ''vae'', ''blocks'']"
    by (simp add: segments_def py_strip_def)
  have h3: "length (segments ?p) > 4" by (simp add: seg)
  have h4: "segments ?p ! 2 = ''tree''" by (simp add: seg)
  from parse_hf_url_tree [OF h1 h2 h3 h4] h1 seg show ?thesis
    by (simp add: hf_url_def)
qed

text \<open>Claim C2. When the host is \<^verbatim>\<open>huggingface.co\<close> and the stripped path splits into
  exactly the four segments namespace, repository, \<^verbatim>\<open>tree\<close> and branch, the directory
  returned is \<^verbatim>\<open>tree/\<close> followed by the branch: four segments are not more than four, so
  the branch for more than two segments applies.\<close>

theorem parse_hf_url_four_segments:
  assumes "urlparse ext url = Inr parsed"
    and "netloc parsed = ''huggingface.co''"
    and "segments parsed = [ns, repo, ''tree'', branch]"
  shows "parse_hf_url ext url = Inr (ns @ ''/'' @ repo, ''tree/'' @ branch)"
  using assms by (simp add: parse_hf_url_def segments_def Let_def)

theorem parse_hf_url_four_segments_witness:
  "urlparse sample_externals ''https://huggingface.co/acme/widgets/tree/main'' =
     hf_url ''https'' ''huggingface.co'' ''/acme/widgets/tree/main'' [] \<and>
   segments \<lparr>scheme = ''https'', netloc = ''huggingface.co'',
             path = ''/acme/widgets/tree/main'', params = [], query = [],
             fragment = []\<rparr> =
     [''acme'', ''widgets'', ''tree'', ''main''] \<and>
   parse_hf_url sample_externals ''https://huggingface.co/acme/widgets/tree/main'' =
     Inr (''acme/widgets'', ''tree/main'')"
proof -
  let ?u = "''https://huggingface.co/acme/widgets/tree/main''"
  let ?p = "\<lparr>scheme = ''https'', netloc = ''huggingface.co'',
             path = ''/acme/widgets/tree/main'', params = [], query = [],
             fragment = []\<rparr>"
  have h1: "urlparse sample_externals ?u = Inr ?p"
    by (simp add: sample_defs)
  have h2: "netloc ?p = ''huggingface.co''" by simp
  have seg: "segments ?p = [''acme'', ''widgets'', ''tree'', ''main'']"
    by (simp add: segments_def py_strip_def)
  from parse_hf_url_four_segments [OF h1 h2 seg] h1 seg show ?thesis
    by (simp add: hf_url_def)
qed

text \<open>Claim C3. For a URL that \<^verbatim>\<open>urlparse\<close> splits, \<^verbatim>\<open>parse_hf_url\<close> raises exactly when
  the host is not \<^verbatim>\<open>huggingface.co\<close> or the host is \<^verbatim>\<open>huggingface.co\<close> and the stripped
  path has fewer than two segments; what it raises is a \<^verbatim>\<open>ValueError\<close>; and when it does
  not raise it returns a pair of repository and directory.\<close>

theorem parse_hf_url_raises_iff:
  assumes "urlparse ext url = Inr parsed"
  shows "((\<exists>e. parse_hf_url ext url = Inl e) \<longleftrightarrow>
            netloc parsed \<noteq> ''huggingface.co'' \<or>
            (netloc parsed = ''huggingface.co'' \<and> length (segments parsed) < 2)) \<and>
         (\<forall>e. parse_hf_url ext url = Inl e \<longrightarrow> exc_class_of e = ValueError) \<and>
         ((\<exists>e. parse_hf_url ext url = Inl e) \<or>
          (\<exists>repo_id directory. parse_hf_url ext url = Inr (repo_id, directory)))"
  using assms by (auto simp: parse_hf_url_def segments_def Let_def)

theorem parse_hf_url_raises_iff_witness:
  "urlparse sample_externals ''https://huggingface.co/acme'' =
     hf_url ''https'' ''huggingface.co'' ''/acme'' [] \<and>
   length (segments \<lparr>scheme = ''https'', netloc = ''huggingface.co'', path = ''/acme'',
                     params = [], query = [], fragment = []\<rparr>) = 1 \<and>
   (\<exists>e. parse_hf_url sample_externals ''https://huggingface.co/acme'' = Inl e) \<and>
   urlparse sample_externals ''https://huggingface.co/acme/widgets'' =
     hf_url ''https'' ''huggingface.co'' ''/acme/widgets'' [] \<and>
   length (segments \<lparr>scheme = ''https'', netloc = ''huggingface.co'', path = ''/acme/widgets'',
                     params = [], query = [], fragment = []\<rparr>) = 2 \<and>
   \<not> (\<exists>e. parse_hf_url sample_externals ''https://huggingface.co/acme/widgets'' = Inl e)"
proof -
  let ?u = "''https://huggingface.co/acme''"
  let ?p = "\<lparr>scheme = ''https'', netloc = ''huggingface.co'', path = ''/acme'',
             params = [], query = [], fragment = []\<rparr>"
  let ?v = "''https://huggingface.co/acme/widgets''"
  let ?q = "\<lparr>scheme = ''https'', netloc = ''huggingface.co'', path = ''/acme/widgets'',
             params = [], query = [], fragment = []\<rparr>"
  have h1: "urlparse sample_externals ?u = Inr ?p"
    by (simp add: sample_defs)
  have s1: "length (segments ?p) = 1"
    by (simp add: segments_def py_strip_def)
  have h2: "urlparse sample_externals ?v = Inr ?q"
    by (simp add: sample_defs)
  have s2: "length (segments ?q) = 2"
    by (simp add: segments_def py_strip_def)
  have n1: "netloc ?p = ''huggingface.co'' \<and> length (segments ?p) < 2"
    using s1 by simp
  have n2: "\<not> (netloc ?q \<noteq> ''huggingface.co'' \<or>
                netloc ?q = ''huggingface.co'' \<and> length (segments ?q) < 2)"
    using s2 by simp
  from parse_hf_url_raises_iff [OF h1, THEN conjunct1] n1
  have r1: "\<exists>e. parse_hf_url sample_externals ?u = Inl e" by blast
  from parse_hf_url_raises_iff [OF h2, THEN conjunct1] n2
  have r2: "\<not> (\<exists>e. parse_hf_url sample_externals ?v = Inl e)" by blast
  have c1: "urlparse sample_externals ?u = hf_url ''https'' ''huggingface.co'' ''/acme'' []"
    unfolding hf_url_def by (rule h1)
  have c2: "urlparse sample_externals ?v =
      hf_url ''https'' ''huggingface.co'' ''/acme/widgets'' []"
    unfolding hf_url_def by (rule h2)
  from c1 s1 r1 c2 s2 r2 show ?thesis
    by (intro conjI)
qed

text \<open>Claim C10. The result of \<^verbatim>\<open>parse_hf_url\<close> depends on the host and the path only:
  two URLs that \<^verbatim>\<open>urlparse\<close> splits into the same host and the same path, whatever their
  scheme, parameters, query and fragment, give the same pair or the same exception.\<close>

theorem parse_hf_url_netloc_path_only:
  assumes "urlparse ext u1 = Inr p1"
    and "urlparse ext u2 = Inr p2"
    and "netloc p1 = netloc p2"
    and "path p1 = path p2"
  shows "parse_hf_url ext u1 = parse_hf_url ext u2"
  using assms by (simp add: parse_hf_url_def)

theorem parse_hf_url_netloc_path_only_witness:
  "urlparse sample_externals ''https://huggingface.co/acme/widgets/tree/main/vae/blocks'' =
     hf_url ''https'' ''huggingface.co'' ''/acme/widgets/tree/main/vae/blocks'' [] \<and>
   urlparse sample_externals
       ''http://huggingface.co/acme/widgets/tree/main/vae/blocks?download=true'' =
     hf_url ''http'' ''huggingface.co'' ''/acme/widgets/tree/main/vae/blocks''
       ''download=true'' \<and>
   parse_hf_url sample_externals ''https://huggingface.co/acme/widgets/tree/main/vae/blocks'' =
     parse_hf_url sample_externals
       ''http://huggingface.co/acme/widgets/tree/main/vae/blocks?download=true''"
proof -
  let ?u = "''https://huggingface.co/acme/widgets/tree/main/vae/blocks''"
  let ?v = "''http://huggingface.co/acme/widgets/tree/main/vae/blocks?download=true''"
  let ?p = "\<lparr>scheme = ''https'', netloc = ''huggingface.co'',
             path = ''/acme/widgets/tree/main/vae/blocks'', params = [], query = [],
             fragment = []\<rparr>"
  let ?q = "\<lparr>scheme = ''http'', netloc = ''huggingface.co'',
             path = ''/acme/widgets/tree/main/vae/blocks'', params = [],
             query = ''download=true'', fragment = []\<rparr>"
  have h1: "urlparse sample_externals ?u = Inr ?p"
    by (simp add: sample_defs)
  have h2: "urlparse sample_externals ?v = Inr ?q"
    by (simp add: sample_defs)
  have h3: "netloc ?p = netloc ?q" by simp
  have h4: "path ?p = path ?q" by simp
  have c1: "urlparse sample_externals ?u =
      hf_url ''https'' ''huggingface.co'' ''/acme/widgets/tree/main/vae/blocks'' []"
    unfolding hf_url_def by (rule h1)
  have c2: "urlparse sample_externals ?v =
      hf_url ''http'' ''huggingface.co'' ''/acme/widgets/tree/main/vae/blocks''
        ''download=true''"
    unfolding hf_url_def by (rule h2)
  from c1 c2 parse_hf_url_netloc_path_only [OF h1 h2 h3 h4] show ?thesis
    by (intro conjI)
qed

section \<open>A URL without a directory\<close>

lemma segments_last_not_Nil:
  assumes "2 \<le> length (segments parsed)"
  shows "last (segments parsed) \<noteq> []"
proof -
  let ?s = "py_strip ''/'' (path parsed)"
  have "?s \<noteq> []"
  proof
    assume "?s = []"
    then have "segments parsed = [[]]" by (simp add: segments_def)
    with assms show False by simp
  qed
  moreover from this have "last ?s \<noteq> CHR ''/''"
    using py_strip_last [of "''/''" "path parsed"] by simp
  ultimately show ?thesis
    unfolding segments_def by (rule last_py_split_not_Nil)
qed

lemma py_join_drop_not_Nil:
  assumes "n < length xs" and "last xs \<noteq> []"
  shows "py_join sep (drop n xs) \<noteq> []"
proof -
  from assms(1) have "drop n xs \<noteq> []" by simp
  moreover from assms have "last (drop n xs) \<noteq> []" by simp
  ultimately show ?thesis by (rule py_join_not_Nil)
qed

lemma parse_hf_url_empty_directory:
  assumes "urlparse ext url = Inr parsed"
    and "parse_hf_url ext url = Inr (repo_id, [])"
  shows "length (segments parsed) = 2"
proof -
  let ?segs = "segments parsed"
  from assms have hf: "netloc parsed = ''huggingface.co''"
    by (auto simp: parse_hf_url_def split: if_splits)
  from assms hf have len: "2 \<le> length ?segs"
    by (auto simp: parse_hf_url_def segments_def Let_def split: if_splits)
  then have lst: "last ?segs \<noteq> []" by (rule segments_last_not_Nil)
  show ?thesis
  proof (rule ccontr)
    assume "length ?segs \<noteq> 2"
    with len have gt: "2 < length ?segs" by simp
    then have j2: "py_join ''/'' (drop 2 ?segs) \<noteq> []"
      using lst by (rule py_join_drop_not_Nil)
    have j4: "4 < length ?segs \<Longrightarrow> py_join ''/'' (drop 4 ?segs) \<noteq> []"
      using lst by (simp add: py_join_drop_not_Nil)
    from assms hf len gt j2 j4 show False
      by (auto simp: parse_hf_url_def segments_def Let_def split: if_splits)
  qed
qed

lemma main_try_missing_directory:
  assumes "parse_hf_url ext (arg_url a) = Inr (repo_id, [])"
  shows "main_try ext a w =
           (Inr (), w\<lparr>stdout := stdout w @
              [Print ''Error: Please specify a directory in the URL'',
               Print ''Example: https://huggingface.co/username/repo-name/tree/main/models'']\<rparr>)"
  using assms by (simp add: main_try_def py_print_def)

text \<open>Claim C4. When \<^verbatim>\<open>parse_hf_url\<close> accepts the URL and returns the empty directory,
  \<^verbatim>\<open>main\<close> prints its two lines of error and example and returns: nothing else is
  printed, so \<^verbatim>\<open>download_hf_directory\<close> never starts, and no transfer is added to the
  world. The empty directory arises from exactly two path segments.\<close>

theorem main_missing_directory:
  assumes "parse_hf_url ext (arg_url a) = Inr (repo_id, [])"
  shows "main ext a w =
           (Inr (), w\<lparr>stdout := stdout w @
              [Print ''Error: Please specify a directory in the URL'',
               Print ''Example: https://huggingface.co/username/repo-name/tree/main/models'']\<rparr>) \<and>
         transfers (snd (main ext a w)) = transfers w \<and>
         (\<forall>parsed. urlparse ext (arg_url a) = Inr parsed \<longrightarrow> length (segments parsed) = 2)"
proof -
  have "main ext a w =
      (Inr (), w\<lparr>stdout := stdout w @
              [Print ''Error: Please specify a directory in the URL'',
               Print ''Example: https://huggingface.co/username/repo-name/tree/main/models'']\<rparr>)"
    by (simp add: main_def main_try_missing_directory [OF assms])
  moreover from this have "transfers (snd (main ext a w)) = transfers w" by simp
  moreover have "\<forall>parsed. urlparse ext (arg_url a) = Inr parsed \<longrightarrow> length (segments parsed) = 2"
    using assms by (blast intro: parse_hf_url_empty_directory)
  ultimately show ?thesis by blast
qed

lemma sample_parse_two_segments:
  "parse_hf_url sample_externals ''https://huggingface.co/acme/widgets'' =
     Inr (''acme/widgets'', [])"
  by (simp add: parse_hf_url_def sample_defs py_strip_def)

theorem main_missing_directory_witness:
  "parse_hf_url sample_externals (arg_url (sample_args ''https://huggingface.co/acme/widgets'')) =
     Inr (''acme/widgets'', []) \<and>
   main sample_externals (sample_args ''https://huggingface.co/acme/widgets'') world0 =
     (Inr (), \<lparr>stdout = [Print ''Error: Please specify a directory in the URL'',
        Print ''Example: https://huggingface.co/username/repo-name/tree/main/models''],
        transfers = []\<rparr>)"
proof -
  let ?a = "sample_args ''https://huggingface.co/acme/widgets''"
  have h: "parse_hf_url sample_externals (arg_url ?a) = Inr (''acme/widgets'', [])"
    by (simp add: sample_args_def sample_parse_two_segments)
  from main_missing_directory [OF h, of world0, THEN conjunct1]
  have "main sample_externals ?a world0 =
     (Inr (), \<lparr>stdout = [Print ''Error: Please specify a directory in the URL'',
        Print ''Example: https://huggingface.co/username/repo-name/tree/main/models''],
        transfers = []\<rparr>)"
    by (simp add: world0_def)
  with h show ?thesis by (intro conjI)
qed

section \<open>The call of the bulk download\<close>

lemma download_transfers:
  "transfers (snd (download_hf_directory ext repo_id directory local_dir output_dir token
       max_workers w)) =
   transfers w @
     [\<lparr>call_repo_id = repo_id,
       call_allow_patterns =
         [py_strip ''/'' directory @ ''/**/*'', py_strip ''/'' directory @ ''/*''],
       call_local_dir =
         (let name = (case local_dir of None \<Rightarrow> derived_name repo_id directory | Some l \<Rightarrow> l)
          in case output_dir of None \<Rightarrow> name
             | Some od \<Rightarrow> os_path_join (abspath ext (expanduser ext od)) name),
       call_token = token, call_max_workers = max_workers\<rparr>]"
  by (simp add: download_hf_directory_def Let_def py_print_def derived_name_def
      split: sum.splits option.splits)

lemma download_issued_call:
  "issued_call (download_hf_directory ext repo_id directory local_dir output_dir token
       max_workers w) =
     \<lparr>call_repo_id = repo_id,
       call_allow_patterns =
         [py_strip ''/'' directory @ ''/**/*'', py_strip ''/'' directory @ ''/*''],
       call_local_dir =
         (let name = (case local_dir of None \<Rightarrow> derived_name repo_id directory | Some l \<Rightarrow> l)
          in case output_dir of None \<Rightarrow> name
             | Some od \<Rightarrow> os_path_join (abspath ext (expanduser ext od)) name),
       call_token = token, call_max_workers = max_workers\<rparr>"
  by (simp add: issued_call_def download_transfers)

text \<open>Claim C5. Called without a local directory and without an output directory,
  \<^verbatim>\<open>download_hf_directory\<close> hands the bulk download the folder name made of the
  repository with every slash replaced by an underscore, an underscore, and the
  directory with every slash replaced by an underscore. The name depends on nothing
  but the repository and the directory; for \<^verbatim>\<open>acme/widgets\<close> and \<^verbatim>\<open>vae/blocks\<close> it is
  \<^verbatim>\<open>acme_widgets_vae_blocks\<close>.\<close>

theorem download_default_local_dir:
  "call_local_dir (issued_call (download_hf_directory ext repo_id directory None None token
       max_workers w)) =
     py_replace CHR ''/'' CHR ''_'' repo_id @ ''_'' @ py_replace CHR ''/'' CHR ''_'' directory \<and>
   call_local_dir (issued_call (download_hf_directory ext ''acme/widgets'' ''vae/blocks'' None
       None token max_workers w)) = ''acme_widgets_vae_blocks''"
  by (simp add: download_issued_call derived_name_def py_replace_def)

theorem download_default_local_dir_witness:
  "call_local_dir (issued_call (download_hf_directory sample_externals ''acme/widgets''
       ''vae/blocks'' None None None 2 world0)) = ''acme_widgets_vae_blocks''"
  using download_default_local_dir [of sample_externals "''acme/widgets''" "''vae/blocks''"
      None 2 world0]
  by (rule conjunct2)

text \<open>Claim C6. \<^verbatim>\<open>download_hf_directory\<close> issues one call of the bulk download, and the
  inclusion patterns of that call are, as a set, exactly the two strings made of the
  directory stripped of leading and trailing slashes followed by \<^verbatim>\<open>/*\<close> and by \<^verbatim>\<open>/**/*\<close>.
  This holds for every directory, the empty one included.\<close>

theorem download_allow_patterns:
  "transfers (snd (download_hf_directory ext repo_id directory local_dir output_dir token
       max_workers w)) =
     transfers w @ [issued_call (download_hf_directory ext repo_id directory local_dir
       output_dir token max_workers w)] \<and>
   set (call_allow_patterns (issued_call (download_hf_directory ext repo_id directory
       local_dir output_dir token max_workers w))) =
     {py_strip ''/'' directory @ ''/*'', py_strip ''/'' directory @ ''/**/*''} \<and>
   card (set (call_allow_patterns (issued_call (download_hf_directory ext repo_id directory
       local_dir output_dir token max_workers w)))) = 2"
proof -
  have "py_strip ''/'' directory @ ''/**/*'' \<noteq> py_strip ''/'' directory @ ''/*''"
    by simp
  then show ?thesis
    by (auto simp: download_issued_call download_transfers)
qed

theorem download_allow_patterns_witness:
  "set (call_allow_patterns (issued_call (download_hf_directory sample_externals
       ''acme/widgets'' ''/vae/blocks/'' None None None 2 world0))) =
     {''vae/blocks/*'', ''vae/blocks/**/*''}"
proof -
  have "py_strip ''/'' ''/vae/blocks/'' = ''vae/blocks''"
    by (simp add: py_strip_def)
  with download_allow_patterns [of sample_externals "''acme/widgets''" "''/vae/blocks/''"
      None None None 2 world0]
  show ?thesis by simp
qed

section \<open>What \<^verbatim>\<open>main\<close> does with a URL it cannot use\<close>






section \<open>A transfer that fails\<close>










section \<open>The destination under an output directory\<close>










end
